theory Spec2Isabelle
  imports Main
begin

section \<open>Python values and dictionaries\<close>

text \<open>
  The values stored in the configuration dictionaries of \<^verbatim>\<open>plot_config.py\<close>:
  integers, float literals, booleans, strings and lists.  A float literal is kept as the
  decimal it is written as (\<open>PFloat m e\<close> stands for \<open>m / 10 ^ e\<close>, so \<^verbatim>\<open>1.5\<close> is
  \<open>PFloat 15 1\<close>); the module never computes with it.
\<close>

datatype pyval =
    PInt int
  | PFloat int nat
  | PBool bool
  | PStr string
  | PList "pyval list"

text \<open>
  A \<^verbatim>\<open>dict\<close> keeps its keys in insertion order and holds each key once: an association
  list.  \<open>dict_set d k v\<close> is \<^verbatim>\<open>d[k] = v\<close>: an existing key keeps its position and takes
  the new value, a new key goes to the end.
\<close>

type_synonym pydict = "(string \<times> pyval) list"

fun dict_set :: "pydict \<Rightarrow> string \<Rightarrow> pyval \<Rightarrow> pydict" where
  "dict_set [] k v = [(k, v)]"
| "dict_set ((k', v') # d) k v =
     (if k' = k then (k', v) # d else (k', v') # dict_set d k v)"

definition dict_get :: "pydict \<Rightarrow> string \<Rightarrow> pyval option" where
  "dict_get d k = map_of d k"

definition dict_keys :: "pydict \<Rightarrow> string list" where
  "dict_keys d = map fst d"

text \<open>
  A dictionary display \<^verbatim>\<open>{k: v, **e, ...}\<close> is evaluated from left to right into a new
  dictionary: \<^verbatim>\<open>k: v\<close> stores one entry, \<^verbatim>\<open>**e\<close> stores every entry of \<open>e\<close> in the
  order of \<open>e\<close>.  A key that comes again replaces the value stored before.
\<close>

datatype display_item = KV string pyval | Unpack pydict

fun dict_unpack :: "pydict \<Rightarrow> pydict \<Rightarrow> pydict" where
  "dict_unpack d [] = d"
| "dict_unpack d ((k, v) # e) = dict_unpack (dict_set d k v) e"

fun display_into :: "pydict \<Rightarrow> display_item list \<Rightarrow> pydict" where
  "display_into d [] = d"
| "display_into d (KV k v # items) = display_into (dict_set d k v) items"
| "display_into d (Unpack e # items) = display_into (dict_unpack d e) items"

definition dict_display :: "display_item list \<Rightarrow> pydict" where
  "dict_display items = display_into [] items"

section \<open>The configuration dictionaries and the presets\<close>

definition SMALL_SIZE :: int where "SMALL_SIZE = 10"
definition MEDIUM_SIZE :: int where "MEDIUM_SIZE = 12"
definition LARGE_SIZE :: int where "LARGE_SIZE = 14"

definition base_params :: pydict where
  "base_params = dict_display
     [KV ''figure.dpi'' (PInt 100),
      KV ''savefig.dpi'' (PInt 600),
      KV ''figure.facecolor'' (PStr ''white''),
      KV ''axes.facecolor'' (PStr ''white''),
      KV ''font.size'' (PInt MEDIUM_SIZE),
      KV ''axes.titlesize'' (PInt LARGE_SIZE),
      KV ''axes.labelsize'' (PInt MEDIUM_SIZE),
      KV ''xtick.labelsize'' (PInt SMALL_SIZE),
      KV ''ytick.labelsize'' (PInt SMALL_SIZE),
      KV ''legend.fontsize'' (PInt MEDIUM_SIZE),
      KV ''figure.titlesize'' (PInt LARGE_SIZE),
      KV ''lines.linewidth'' (PFloat 15 1),
      KV ''lines.markersize'' (PInt 5),
      KV ''patch.linewidth'' (PFloat 5 1),
      KV ''xtick.direction'' (PStr ''in''),
      KV ''ytick.direction'' (PStr ''in''),
      KV ''xtick.top'' (PBool True),
      KV ''xtick.bottom'' (PBool True),
      KV ''ytick.left'' (PBool True),
      KV ''ytick.right'' (PBool True),
      KV ''xtick.minor.visible'' (PBool True),
      KV ''ytick.minor.visible'' (PBool True),
      KV ''axes.grid'' (PBool False),
      KV ''grid.alpha'' (PFloat 3 1),
      KV ''axes.spines.top'' (PBool True),
      KV ''axes.spines.bottom'' (PBool True),
      KV ''axes.spines.left'' (PBool True),
      KV ''axes.spines.right'' (PBool True)]"

text \<open>The raw string \<^verbatim>\<open>r'\usepackage{amsmath}'\<close> starts with a backslash, character 0x5C.\<close>

definition latex_params :: pydict where
  "latex_params = dict_display
     [KV ''text.usetex'' (PBool True),
      KV ''text.latex.preamble'' (PStr (CHR 0x5C # ''usepackage{amsmath}'')),
      KV ''font.family'' (PStr ''serif''),
      KV ''font.serif'' (PList [PStr ''Computer Modern Roman'']),
      KV ''mathtext.fontset'' (PStr ''cm'')]"

definition contourLevels :: int where "contourLevels = 100"
definition colormap :: string where "colormap = ''bwr''"
definition savefig_format :: string where "savefig_format = ''png''"
definition SAVE_DIR :: string where "SAVE_DIR = ''''"

section \<open>Text written to the console\<close>

text \<open>
  Strings are byte lists, so the decorative symbols of the status lines are their UTF-8
  bytes: the check mark U+2713, the ballot cross U+2717 and the palette U+1F3A8.
\<close>

definition check_mark :: string where
  "check_mark = [CHR 0xE2, CHR 0x9C, CHR 0x93]"

definition ballot_x :: string where
  "ballot_x = [CHR 0xE2, CHR 0x9C, CHR 0x97]"

definition palette :: string where
  "palette = [CHR 0xF0, CHR 0x9F, CHR 0x8E, CHR 0xA8]"

text \<open>
  \<^verbatim>\<open>str.strip()\<close> removes leading and trailing whitespace; on the ASCII range the
  whitespace characters are 0x09 to 0x0D, 0x1C to 0x1F and the space.
\<close>

definition py_isspace :: "char \<Rightarrow> bool" where
  "py_isspace c = (let n = (of_char c :: nat) in (9 \<le> n \<and> n \<le> 13) \<or> (28 \<le> n \<and> n \<le> 32))"

definition strip :: "string \<Rightarrow> string" where
  "strip s = rev (dropWhile py_isspace (rev (dropWhile py_isspace s)))"

text \<open>The decimal text of an integer, as an f-string field prints it.\<close>

function str_nat :: "nat \<Rightarrow> string" where
  "str_nat n =
     (if n < 10 then [char_of (48 + n)]
      else str_nat (n div 10) @ [char_of (48 + n mod 10)])"
  by pat_completeness auto
termination
  by (relation "measure id") auto

definition str_int :: "int \<Rightarrow> string" where
  "str_int i = (if i < 0 then CHR ''-'' # str_nat (nat (- i)) else str_nat (nat i))"

section \<open>The LaTeX availability check\<close>

text \<open>
  The exceptions that occur in a run of the module.  \<^verbatim>\<open>subprocess.run\<close> raises
  \<open>TimeoutExpired\<close> when the time limit passes and, when the child cannot be started, an
  \<^verbatim>\<open>OSError\<close>: \<open>FileNotFoundError\<close> if there is no \<^verbatim>\<open>which\<close> on the search path,
  \<open>PermissionError\<close> if it may not be executed.  \<open>KeyError\<close> and \<open>ValueError\<close> are what
  \<^verbatim>\<open>rcParams\<close> raises for an unknown key and for a value it rejects.
\<close>

datatype py_exception =
    TimeoutExpired
  | CalledProcessError
  | FileNotFoundError
  | PermissionError
  | KeyError
  | ValueError

record completed_process =
  returncode :: int
  stdout :: string

text \<open>
  What the call \<^verbatim>\<open>subprocess.run(['which', 'latex'], capture_output=True, text=True,
  timeout=5)\<close> does is given from outside: it returns a completed process or raises.
\<close>

datatype run_outcome = Returns completed_process | Raises py_exception

text \<open>
  \<open>check_latex_available\<close> gives the lines it prints and either the boolean it returns
  or the exception that leaves it.  The \<^verbatim>\<open>except\<close> clause names three classes, none of
  which is a superclass of another exception of \<open>py_exception\<close>.
\<close>

definition handled :: "py_exception \<Rightarrow> bool" where
  "handled e = (e = TimeoutExpired \<or> e = CalledProcessError \<or> e = FileNotFoundError)"

definition check_latex_available :: "run_outcome \<Rightarrow> string list \<times> (py_exception + bool)" where
  "check_latex_available r =
     (case r of
        Returns result \<Rightarrow>
          (if returncode result = 0
           then (let latex_path = strip (stdout result)
                 in ([check_mark @ '' LaTeX found at: '' @ latex_path], Inr True))
           else ([], Inr False))
      | Raises e \<Rightarrow> (if handled e then ([], Inr False) else ([], Inl e)))"

section \<open>Selecting and merging the parameters\<close>

text \<open>
  The \<^verbatim>\<open>if LATEX_AVAILABLE: ... else: ...\<close> statement that binds \<^verbatim>\<open>params\<close>, as a
  function of the flag and of the dictionaries that \<^verbatim>\<open>base_params\<close> and
  \<^verbatim>\<open>latex_params\<close> refer to at that moment.
\<close>

definition select_params :: "bool \<Rightarrow> pydict \<Rightarrow> pydict \<Rightarrow> pydict" where
  "select_params available base latex =
     (if available then dict_display [Unpack base, Unpack latex]
      else dict_display
             [Unpack base,
              KV ''font.family'' (PStr ''serif''),
              KV ''mathtext.fontset'' (PStr ''dejavuserif'')])"

section \<open>The global rendering configuration\<close>

text \<open>
  \<^verbatim>\<open>plt.rcParams\<close> belongs to the plotting library.  Storing a value under a key goes
  through the library's validation, which either raises or gives the value that is
  stored; the validation is a parameter.  \<^verbatim>\<open>rcParams.update(d)\<close> stores the entries of
  \<open>d\<close> one after the other and stops at the first one that raises, keeping what it has
  stored so far.
\<close>

type_synonym validator = "string \<Rightarrow> pyval \<Rightarrow> py_exception + pyval"

fun rcParams_update :: "validator \<Rightarrow> pydict \<Rightarrow> pydict \<Rightarrow> pydict \<times> py_exception option" where
  "rcParams_update val rc [] = (rc, None)"
| "rcParams_update val rc ((k, v) # items) =
     (case val k v of
        Inl e \<Rightarrow> (rc, Some e)
      | Inr v' \<Rightarrow> rcParams_update val (dict_set rc k v') items)"

section \<open>Running the module\<close>

text \<open>
  Dictionaries are mutable objects, so they live in a store and names hold addresses.
  A display allocates a new object; \<^verbatim>\<open>rcParams\<close> exists before the module is loaded.
\<close>

type_synonym addr = nat

record store =
  objs :: "addr \<Rightarrow> pydict option"
  next_addr :: addr

definition rcParams_addr :: addr where
  "rcParams_addr = 0"

definition initial_store :: "pydict \<Rightarrow> store" where
  "initial_store rc = \<lparr>objs = (\<lambda>a. None)(rcParams_addr := Some rc), next_addr = Suc rcParams_addr\<rparr>"

definition new_dict :: "pydict \<Rightarrow> store \<Rightarrow> addr \<times> store" where
  "new_dict d s =
     (next_addr s, s\<lparr>objs := (objs s)(next_addr s := Some d), next_addr := Suc (next_addr s)\<rparr>)"

definition deref :: "store \<Rightarrow> addr \<Rightarrow> pydict" where
  "deref s a = the (objs s a)"

definition assign :: "store \<Rightarrow> addr \<Rightarrow> pydict \<Rightarrow> store" where
  "assign s a d = s\<lparr>objs := (objs s)(a := Some d)\<rparr>"

text \<open>The data names the module binds, as they are when the module has been loaded.\<close>

record namespace =
  ns_SMALL_SIZE :: int
  ns_MEDIUM_SIZE :: int
  ns_LARGE_SIZE :: int
  ns_base_params :: addr
  ns_latex_params :: addr
  ns_contourLevels :: int
  ns_colormap :: string
  ns_savefig_format :: string
  ns_SAVE_DIR :: string
  ns_LATEX_AVAILABLE :: bool
  ns_params :: addr

datatype warning_category = UserWarning

text \<open>What a run leaves behind whether it completes or not.\<close>

record effects =
  printed :: "string list"
  warned :: "(warning_category \<times> string) list"
  heap :: store

text \<open>What a run depends on.\<close>

record world =
  which_latex :: run_outcome
  rc_validate :: validator
  rc_initial :: pydict

definition not_found_line :: string where
  "not_found_line = ballot_x @ '' LaTeX not found in PATH''"

definition fallback_warning :: "warning_category \<times> string" where
  "fallback_warning =
     (UserWarning,
      ''LaTeX not found. Falling back to standard matplotlib fonts. '' @
      ''For better typography, install LaTeX (see README for instructions).'')"

text \<open>
  The statement \<^verbatim>\<open>if not LATEX_AVAILABLE: print(...); warnings.warn(...)\<close>.  Under the
  default warning filter \<^verbatim>\<open>warnings.warn\<close> records the warning and execution goes on.
\<close>

definition fallback_notice :: "bool \<Rightarrow> string list \<times> (warning_category \<times> string) list" where
  "fallback_notice available =
     (if \<not> available then ([not_found_line], [fallback_warning]) else ([], []))"

text \<open>The five \<^verbatim>\<open>print\<close> calls before the parameters are applied.\<close>

definition summary_lines :: "bool \<Rightarrow> string list" where
  "summary_lines available =
     [palette @ '' Scientific plotting configuration loaded'',
      ''   LaTeX support: '' @
        (if available then check_mark @ '' Enabled'' else ballot_x @ '' Disabled''),
      ''   Default save format: '' @ savefig_format,
      ''   Contour levels: '' @ str_int contourLevels,
      ''   Colormap: '' @ colormap]"

text \<open>
  The module body from top to bottom.  An exception that leaves
  \<open>check_latex_available\<close> or \<^verbatim>\<open>rcParams.update\<close> ends the run; the effects up to that
  point stay.
\<close>

definition load_module :: "world \<Rightarrow> effects \<times> (py_exception + namespace)" where
  "load_module w =
     (let s0 = initial_store (rc_initial w);
          (a_base, s1) = new_dict base_params s0;
          (a_latex, s2) = new_dict latex_params s1
      in case check_latex_available (which_latex w) of
           (out1, Inl e) \<Rightarrow> (\<lparr>printed = out1, warned = [], heap = s2\<rparr>, Inl e)
         | (out1, Inr available) \<Rightarrow>
             (let (out2, ws) = fallback_notice available;
                  (a_params, s3) =
                     new_dict (select_params available (deref s2 a_base) (deref s2 a_latex)) s2;
                  out3 = summary_lines available;
                  (rc, raised) =
                     rcParams_update (rc_validate w) (deref s3 rcParams_addr) (deref s3 a_params);
                  s4 = assign s3 rcParams_addr rc;
                  eff = \<lparr>printed = out1 @ out2 @ out3, warned = ws, heap = s4\<rparr>
              in case raised of
                   Some e \<Rightarrow> (eff, Inl e)
                 | None \<Rightarrow>
                     (eff,
                      Inr \<lparr>ns_SMALL_SIZE = SMALL_SIZE,
                           ns_MEDIUM_SIZE = MEDIUM_SIZE,
                           ns_LARGE_SIZE = LARGE_SIZE,
                           ns_base_params = a_base,
                           ns_latex_params = a_latex,
                           ns_contourLevels = contourLevels,
                           ns_colormap = colormap,
                           ns_savefig_format = savefig_format,
                           ns_SAVE_DIR = SAVE_DIR,
                           ns_LATEX_AVAILABLE = available,
                           ns_params = a_params\<rparr>)))"

section \<open>Example runs\<close>

text \<open>
  Three hosts on which the properties below are evaluated: one where \<^verbatim>\<open>which latex\<close>
  finds the program, one where it exits with status 1, and one that has no
  \<^verbatim>\<open>which\<close> at all.  The configuration object accepts every entry as it is.
\<close>

definition accept_all :: validator where
  "accept_all k v = Inr v"

definition world_with_latex :: world where
  "world_with_latex =
     \<lparr>which_latex = Returns \<lparr>returncode = 0, stdout = ''/usr/bin/latex'' @ [CHR 0x0A]\<rparr>,
      rc_validate = accept_all,
      rc_initial = [(''figure.dpi'', PInt 72), (''lines.color'', PStr ''C0'')]\<rparr>"

definition world_without_latex :: world where
  "world_without_latex =
     \<lparr>which_latex = Returns \<lparr>returncode = 1, stdout = []\<rparr>,
      rc_validate = accept_all,
      rc_initial = [(''figure.dpi'', PInt 72), (''lines.color'', PStr ''C0'')]\<rparr>"

definition world_without_which :: world where
  "world_without_which =
     \<lparr>which_latex = Raises FileNotFoundError,
      rc_validate = accept_all,
      rc_initial = [(''font.family'', PStr ''sans-serif'')]\<rparr>"

text \<open>The names a run that completes has bound, given the flag it computed.\<close>

definition loaded :: "bool \<Rightarrow> namespace" where
  "loaded available =
     \<lparr>ns_SMALL_SIZE = 10,
      ns_MEDIUM_SIZE = 12,
      ns_LARGE_SIZE = 14,
      ns_base_params = 1,
      ns_latex_params = 2,
      ns_contourLevels = 100,
      ns_colormap = ''bwr'',
      ns_savefig_format = ''png'',
      ns_SAVE_DIR = [],
      ns_LATEX_AVAILABLE = available,
      ns_params = 3\<rparr>"

section \<open>Dictionary operations\<close>

lemma dict_set_map_of: "map_of (dict_set d k v) = (map_of d)(k \<mapsto> v)"
  by (induction d) (auto simp: fun_eq_iff)

lemma dict_set_key_list:
  "map fst (dict_set d k v) = (if k \<in> fst ` set d then map fst d else map fst d @ [k])"
  by (induction d) force+

lemma dict_set_keys: "fst ` set (dict_set d k v) = insert k (fst ` set d)"
proof -
  have "set (map fst (dict_set d k v)) = insert k (set (map fst d))"
    unfolding dict_set_key_list by auto
  then show ?thesis by simp
qed

lemma dict_set_fresh: "k \<notin> fst ` set d \<Longrightarrow> dict_set d k v = d @ [(k, v)]"
  by (induction d) auto

lemma dict_set_distinct: "distinct (map fst d) \<Longrightarrow> distinct (map fst (dict_set d k v))"
  by (simp add: dict_set_key_list)

text \<open>Unpacking a dictionary into one that has none of its keys appends it.\<close>

lemma dict_unpack_fresh:
  "distinct (map fst (d @ e)) \<Longrightarrow> dict_unpack d e = d @ e"
  by (induction d e rule: dict_unpack.induct) (auto simp: dict_set_fresh)

lemma dict_unpack_keys: "fst ` set (dict_unpack d e) = fst ` set d \<union> fst ` set e"
  by (induction d e rule: dict_unpack.induct) (simp_all add: dict_set_keys)

lemma dict_unpack_distinct: "distinct (map fst d) \<Longrightarrow> distinct (map fst (dict_unpack d e))"
  by (induction d e rule: dict_unpack.induct) (simp_all add: dict_set_distinct)

lemma dict_unpack_map_of:
  "distinct (map fst e) \<Longrightarrow> map_of (dict_unpack d e) = map_of d ++ map_of e"
proof (induction d e rule: dict_unpack.induct)
  case (1 d)
  then show ?case by simp
next
  case (2 d k v e)
  then have "k \<notin> dom (map_of e)" by (auto simp: dom_map_of_conv_image_fst)
  with 2 show ?case
    by (auto simp: dict_set_map_of fun_eq_iff map_add_def split: option.splits)
qed

section \<open>The two dictionaries, evaluated\<close>

lemma base_params_eq:
  "base_params =
     [(''figure.dpi'', PInt 100),
      (''savefig.dpi'', PInt 600),
      (''figure.facecolor'', PStr ''white''),
      (''axes.facecolor'', PStr ''white''),
      (''font.size'', PInt 12),
      (''axes.titlesize'', PInt 14),
      (''axes.labelsize'', PInt 12),
      (''xtick.labelsize'', PInt 10),
      (''ytick.labelsize'', PInt 10),
      (''legend.fontsize'', PInt 12),
      (''figure.titlesize'', PInt 14),
      (''lines.linewidth'', PFloat 15 1),
      (''lines.markersize'', PInt 5),
      (''patch.linewidth'', PFloat 5 1),
      (''xtick.direction'', PStr ''in''),
      (''ytick.direction'', PStr ''in''),
      (''xtick.top'', PBool True),
      (''xtick.bottom'', PBool True),
      (''ytick.left'', PBool True),
      (''ytick.right'', PBool True),
      (''xtick.minor.visible'', PBool True),
      (''ytick.minor.visible'', PBool True),
      (''axes.grid'', PBool False),
      (''grid.alpha'', PFloat 3 1),
      (''axes.spines.top'', PBool True),
      (''axes.spines.bottom'', PBool True),
      (''axes.spines.left'', PBool True),
      (''axes.spines.right'', PBool True)]"
  by (simp add: base_params_def dict_display_def SMALL_SIZE_def MEDIUM_SIZE_def LARGE_SIZE_def)

lemma latex_params_eq:
  "latex_params =
     [(''text.usetex'', PBool True),
      (''text.latex.preamble'', PStr (CHR 0x5C # ''usepackage{amsmath}'')),
      (''font.family'', PStr ''serif''),
      (''font.serif'', PList [PStr ''Computer Modern Roman'']),
      (''mathtext.fontset'', PStr ''cm'')]"
  by (simp add: latex_params_def dict_display_def)

lemma base_params_distinct: "distinct (map fst base_params)"
  by (simp add: base_params_eq)

lemma latex_params_distinct: "distinct (map fst latex_params)"
  by (simp add: latex_params_eq)

lemma base_latex_disjoint: "fst ` set base_params \<inter> fst ` set latex_params = {}"
  by (simp add: base_params_eq latex_params_eq)

section \<open>The merged parameters and the runs of the module\<close>

lemma base_fallback_disjoint:
  "''font.family'' \<notin> fst ` set base_params" "''mathtext.fontset'' \<notin> fst ` set base_params"
  by (simp_all add: base_params_eq)

lemma select_params_True: "select_params True base_params latex_params = base_params @ latex_params"
proof -
  have "dict_unpack [] base_params = base_params"
    using dict_unpack_fresh [of "[]" base_params] base_params_distinct by simp
  moreover have "dict_unpack base_params latex_params = base_params @ latex_params"
    using base_params_distinct latex_params_distinct base_latex_disjoint
    by (intro dict_unpack_fresh) simp
  ultimately show ?thesis by (simp add: select_params_def dict_display_def)
qed

lemma select_params_False:
  "select_params False base_params latex_params =
     base_params @ [(''font.family'', PStr ''serif''), (''mathtext.fontset'', PStr ''dejavuserif'')]"
proof -
  have "dict_unpack [] base_params = base_params"
    using dict_unpack_fresh [of "[]" base_params] base_params_distinct by simp
  then show ?thesis
    using base_fallback_disjoint
    by (simp add: select_params_def dict_display_def dict_set_fresh)
qed

lemma select_params_distinct: "distinct (map fst (select_params available base_params latex_params))"
  using base_params_distinct latex_params_distinct base_latex_disjoint base_fallback_disjoint
  by (cases available) (simp_all add: select_params_True select_params_False)

lemma load_module_completed:
  assumes "load_module w = (eff, Inr ns)"
  shows "\<exists>out1. check_latex_available (which_latex w) = (out1, Inr (ns_LATEX_AVAILABLE ns))"
    and "deref (heap eff) (ns_base_params ns) = base_params"
    and "deref (heap eff) (ns_latex_params ns) = latex_params"
    and "deref (heap eff) (ns_params ns) = select_params (ns_LATEX_AVAILABLE ns) base_params latex_params"
    and "rcParams_update (rc_validate w) (rc_initial w)
           (select_params (ns_LATEX_AVAILABLE ns) base_params latex_params)
         = (deref (heap eff) rcParams_addr, None)"
    and "ns_contourLevels ns = 100 \<and> ns_colormap ns = ''bwr'' \<and> ns_savefig_format ns = ''png'' \<and> ns_SAVE_DIR ns = ''''"
  using assms
  by (auto simp: load_module_def Let_def new_dict_def initial_store_def deref_def assign_def
        rcParams_addr_def contourLevels_def colormap_def savefig_format_def SAVE_DIR_def
      split: prod.splits sum.splits option.splits)

lemma rcParams_update_accept_all: "rcParams_update accept_all rc items = (dict_unpack rc items, None)"
  by (induction rc items rule: dict_unpack.induct) (simp_all add: accept_all_def)

lemma load_module_accept_all:
  assumes "check_latex_available (which_latex w) = (out1, Inr available)"
    and "rc_validate w = accept_all"
  shows "snd (load_module w) = Inr (loaded available)"
  using assms
  by (simp add: load_module_def Let_def new_dict_def initial_store_def deref_def assign_def
        rcParams_addr_def rcParams_update_accept_all loaded_def SMALL_SIZE_def MEDIUM_SIZE_def
        LARGE_SIZE_def contourLevels_def colormap_def savefig_format_def SAVE_DIR_def
      split: prod.splits)

lemma run_with_latex: "snd (load_module world_with_latex) = Inr (loaded True)"
  by (rule load_module_accept_all) (simp_all add: world_with_latex_def check_latex_available_def)

lemma run_without_latex: "snd (load_module world_without_latex) = Inr (loaded False)"
  by (rule load_module_accept_all) (simp_all add: world_without_latex_def check_latex_available_def)

lemma run_without_which: "snd (load_module world_without_which) = Inr (loaded False)"
  by (rule load_module_accept_all)
     (simp_all add: world_without_which_def check_latex_available_def handled_def)

lemma completed_run: "snd (load_module w) = Inr ns \<Longrightarrow> load_module w = (fst (load_module w), Inr ns)"
  by (simp add: prod_eq_iff)

section \<open>The merged configuration\<close>

text \<open>
  C1: in every run whose availability flag is false, the merged configuration maps
  \<^verbatim>\<open>font.family\<close> to \<^verbatim>\<open>serif\<close> and \<^verbatim>\<open>mathtext.fontset\<close> to \<^verbatim>\<open>dejavuserif\<close>, and
  has none of the keys \<^verbatim>\<open>text.usetex\<close>, \<^verbatim>\<open>text.latex.preamble\<close>, \<^verbatim>\<open>font.serif\<close>.
\<close>

theorem fallback_params:
  assumes "load_module w = (eff, Inr ns)" and "\<not> ns_LATEX_AVAILABLE ns"
  shows "dict_get (deref (heap eff) (ns_params ns)) ''font.family'' = Some (PStr ''serif'')
       \<and> dict_get (deref (heap eff) (ns_params ns)) ''mathtext.fontset'' = Some (PStr ''dejavuserif'')
       \<and> ''text.usetex'' \<notin> set (dict_keys (deref (heap eff) (ns_params ns)))
       \<and> ''text.latex.preamble'' \<notin> set (dict_keys (deref (heap eff) (ns_params ns)))
       \<and> ''font.serif'' \<notin> set (dict_keys (deref (heap eff) (ns_params ns)))"
proof -
  have "deref (heap eff) (ns_params ns) =
          base_params @ [(''font.family'', PStr ''serif''), (''mathtext.fontset'', PStr ''dejavuserif'')]"
    using load_module_completed(4) [OF assms(1)] assms(2) by (simp add: select_params_False)
  then show ?thesis
    by (simp add: dict_get_def dict_keys_def base_params_eq)
qed

theorem fallback_params_witness:
  "load_module world_without_latex = (fst (load_module world_without_latex), Inr (loaded False))
   \<and> \<not> ns_LATEX_AVAILABLE (loaded False)
   \<and> dict_get (deref (heap (fst (load_module world_without_latex))) (ns_params (loaded False)))
        ''font.family'' = Some (PStr ''serif'')
   \<and> ''text.usetex'' \<notin>
        set (dict_keys (deref (heap (fst (load_module world_without_latex))) (ns_params (loaded False))))"
proof -
  have run: "load_module world_without_latex = (fst (load_module world_without_latex), Inr (loaded False))"
    by (rule completed_run) (rule run_without_latex)
  have flag: "\<not> ns_LATEX_AVAILABLE (loaded False)"
    by (simp add: loaded_def)
  from fallback_params [OF run flag] run flag show ?thesis by simp
qed

text \<open>
  C2: in every run whose availability flag is true, the merged configuration has the five
  typeset keys with their literal values: \<^verbatim>\<open>text.usetex\<close> is \<^verbatim>\<open>True\<close>, \<^verbatim>\<open>font.family\<close>
  is \<^verbatim>\<open>serif\<close>, \<^verbatim>\<open>mathtext.fontset\<close> is \<^verbatim>\<open>cm\<close>, \<^verbatim>\<open>text.latex.preamble\<close> is
  \<^verbatim>\<open>\usepackage{amsmath}\<close> and \<^verbatim>\<open>font.serif\<close> is the list \<^verbatim>\<open>['Computer Modern Roman']\<close>.
\<close>

theorem typeset_params:
  assumes "load_module w = (eff, Inr ns)" and "ns_LATEX_AVAILABLE ns"
  shows "dict_get (deref (heap eff) (ns_params ns)) ''text.usetex'' = Some (PBool True)
       \<and> dict_get (deref (heap eff) (ns_params ns)) ''font.family'' = Some (PStr ''serif'')
       \<and> dict_get (deref (heap eff) (ns_params ns)) ''mathtext.fontset'' = Some (PStr ''cm'')
       \<and> dict_get (deref (heap eff) (ns_params ns)) ''text.latex.preamble''
           = Some (PStr (CHR 0x5C # ''usepackage{amsmath}''))
       \<and> dict_get (deref (heap eff) (ns_params ns)) ''font.serif''
           = Some (PList [PStr ''Computer Modern Roman''])"
proof -
  have "deref (heap eff) (ns_params ns) = base_params @ latex_params"
    using load_module_completed(4) [OF assms(1)] assms(2) by (simp add: select_params_True)
  then show ?thesis
    by (simp add: dict_get_def base_params_eq latex_params_eq)
qed

theorem typeset_params_witness:
  "load_module world_with_latex = (fst (load_module world_with_latex), Inr (loaded True))
   \<and> ns_LATEX_AVAILABLE (loaded True)
   \<and> dict_get (deref (heap (fst (load_module world_with_latex))) (ns_params (loaded True)))
        ''text.usetex'' = Some (PBool True)
   \<and> dict_get (deref (heap (fst (load_module world_with_latex))) (ns_params (loaded True)))
        ''mathtext.fontset'' = Some (PStr ''cm'')"
proof -
  have run: "load_module world_with_latex = (fst (load_module world_with_latex), Inr (loaded True))"
    by (rule completed_run) (rule run_with_latex)
  have flag: "ns_LATEX_AVAILABLE (loaded True)"
    by (simp add: loaded_def)
  from typeset_params [OF run flag] run flag show ?thesis by simp
qed

text \<open>An entry of \<open>base_params\<close> is found unchanged when a dictionary with other keys follows.\<close>

lemma map_of_base_then:
  assumes "map_of base_params k = Some v" and "fst ` set base_params \<inter> fst ` set e = {}"
  shows "map_of (base_params @ e) k = Some v"
proof -
  from assms(1) have "k \<in> fst ` set base_params"
    by (metis domI dom_map_of_conv_image_fst)
  with assms(2) have "k \<notin> fst ` set e" by blast
  then have "map_of e k = None" by (simp add: map_of_eq_None_iff)
  with assms(1) show ?thesis by (simp add: map_add_def)
qed

text \<open>
  C3: for either value of the availability flag, the merged configuration has every key
  of \<open>base_params\<close> with its base value, and its keys are exactly the base keys together
  with the keys of the branch taken: the five typeset keys when the flag is true, the two
  fallback keys when it is false.
\<close>

theorem merged_keys:
  assumes "load_module w = (eff, Inr ns)"
  shows "(\<forall>k v. dict_get base_params k = Some v \<longrightarrow>
            dict_get (deref (heap eff) (ns_params ns)) k = Some v)
       \<and> set (dict_keys (deref (heap eff) (ns_params ns))) =
           set (dict_keys base_params) \<union>
           (if ns_LATEX_AVAILABLE ns
            then {''text.usetex'', ''text.latex.preamble'', ''font.family'', ''font.serif'',
                  ''mathtext.fontset''}
            else {''font.family'', ''mathtext.fontset''})"
proof (cases "ns_LATEX_AVAILABLE ns")
  case True
  then have eq: "deref (heap eff) (ns_params ns) = base_params @ latex_params"
    using load_module_completed(4) [OF assms] by (simp add: select_params_True)
  have "\<forall>k v. map_of base_params k = Some v \<longrightarrow> map_of (base_params @ latex_params) k = Some v"
    using map_of_base_then [OF _ base_latex_disjoint] by blast
  moreover have "set (map fst latex_params) =
      {''text.usetex'', ''text.latex.preamble'', ''font.family'', ''font.serif'', ''mathtext.fontset''}"
    by (simp add: latex_params_eq)
  ultimately show ?thesis
    using True by (simp add: eq dict_get_def dict_keys_def del: map_of_append)
next
  case False
  then have eq: "deref (heap eff) (ns_params ns) =
      base_params @ [(''font.family'', PStr ''serif''), (''mathtext.fontset'', PStr ''dejavuserif'')]"
    using load_module_completed(4) [OF assms] by (simp add: select_params_False)
  have "fst ` set base_params \<inter>
        fst ` set [(''font.family'', PStr ''serif''), (''mathtext.fontset'', PStr ''dejavuserif'')] = {}"
    using base_fallback_disjoint by simp
  then have "\<forall>k v. map_of base_params k = Some v \<longrightarrow>
      map_of (base_params @ [(''font.family'', PStr ''serif''), (''mathtext.fontset'', PStr ''dejavuserif'')]) k = Some v"
    using map_of_base_then by blast
  then show ?thesis
    using False by (simp add: eq dict_get_def dict_keys_def del: map_of_append)
qed

theorem merged_keys_witness:
  "load_module world_without_which = (fst (load_module world_without_which), Inr (loaded False))
   \<and> dict_get base_params ''savefig.dpi'' = Some (PInt 600)
   \<and> dict_get (deref (heap (fst (load_module world_without_which))) (ns_params (loaded False)))
        ''savefig.dpi'' = Some (PInt 600)
   \<and> set (dict_keys (deref (heap (fst (load_module world_without_which))) (ns_params (loaded False))))
       = set (dict_keys base_params) \<union> {''font.family'', ''mathtext.fontset''}"
proof -
  have run: "load_module world_without_which = (fst (load_module world_without_which), Inr (loaded False))"
    by (rule completed_run) (rule run_without_which)
  have base: "dict_get base_params ''savefig.dpi'' = Some (PInt 600)"
    by (simp add: dict_get_def base_params_eq)
  have flag: "\<not> ns_LATEX_AVAILABLE (loaded False)"
    by (simp add: loaded_def)
  from merged_keys [OF run] run base flag show ?thesis by simp
qed

text \<open>
  C5: the merged configuration is a function of the availability flag alone: two runs
  with the same flag bind \<^verbatim>\<open>params\<close> to equal dictionaries, whatever else differs between
  them, and that dictionary is the merge evaluated at the flag.
\<close>

theorem params_depend_on_flag_only:
  assumes "load_module w1 = (eff1, Inr ns1)"
    and "load_module w2 = (eff2, Inr ns2)"
    and "ns_LATEX_AVAILABLE ns1 = ns_LATEX_AVAILABLE ns2"
  shows "deref (heap eff1) (ns_params ns1) = deref (heap eff2) (ns_params ns2)
       \<and> deref (heap eff1) (ns_params ns1)
           = select_params (ns_LATEX_AVAILABLE ns1) base_params latex_params"
  using load_module_completed(4) [OF assms(1)] load_module_completed(4) [OF assms(2)] assms(3)
  by simp

theorem params_depend_on_flag_only_witness:
  "load_module world_without_latex = (fst (load_module world_without_latex), Inr (loaded False))
   \<and> load_module world_without_which = (fst (load_module world_without_which), Inr (loaded False))
   \<and> which_latex world_without_latex \<noteq> which_latex world_without_which
   \<and> rc_initial world_without_latex \<noteq> rc_initial world_without_which
   \<and> deref (heap (fst (load_module world_without_latex))) (ns_params (loaded False))
       = deref (heap (fst (load_module world_without_which))) (ns_params (loaded False))"
proof -
  have run1: "load_module world_without_latex = (fst (load_module world_without_latex), Inr (loaded False))"
    by (rule completed_run) (rule run_without_latex)
  have run2: "load_module world_without_which = (fst (load_module world_without_which), Inr (loaded False))"
    by (rule completed_run) (rule run_without_which)
  have differ: "which_latex world_without_latex \<noteq> which_latex world_without_which"
    "rc_initial world_without_latex \<noteq> rc_initial world_without_which"
    by (simp_all add: world_without_latex_def world_without_which_def)
  from params_depend_on_flag_only [OF run1 run2] run1 run2 differ show ?thesis by simp
qed

section \<open>The presets and the source dictionaries after a run\<close>

text \<open>
  C6: whatever the availability flag, a loaded module has \<^verbatim>\<open>contourLevels == 100\<close>,
  \<^verbatim>\<open>colormap == 'bwr'\<close>, \<^verbatim>\<open>savefig_format == 'png'\<close> and the empty string as save
  directory.
\<close>

theorem exposed_presets:
  assumes "load_module w = (eff, Inr ns)"
  shows "ns_contourLevels ns = 100 \<and> ns_colormap ns = ''bwr''
       \<and> ns_savefig_format ns = ''png'' \<and> ns_SAVE_DIR ns = ''''"
  using load_module_completed(6) [OF assms] .

theorem exposed_presets_witness:
  "load_module world_with_latex = (fst (load_module world_with_latex), Inr (loaded True))
   \<and> ns_contourLevels (loaded True) = 100 \<and> ns_colormap (loaded True) = ''bwr''
   \<and> ns_savefig_format (loaded True) = ''png'' \<and> ns_SAVE_DIR (loaded True) = ''''"
proof -
  have run: "load_module world_with_latex = (fst (load_module world_with_latex), Inr (loaded True))"
    by (rule completed_run) (rule run_with_latex)
  from exposed_presets [OF run] run show ?thesis by simp
qed

text \<open>
  C9: when the merge and the apply step have run, for either value of the flag, the
  objects that \<^verbatim>\<open>base_params\<close> and \<^verbatim>\<open>latex_params\<close> name still hold the dictionaries they
  were defined as.
\<close>

theorem dicts_not_mutated:
  assumes "load_module w = (eff, Inr ns)"
  shows "deref (heap eff) (ns_base_params ns) = base_params
       \<and> deref (heap eff) (ns_latex_params ns) = latex_params"
  using load_module_completed(2,3) [OF assms] by simp

theorem dicts_not_mutated_witness:
  "load_module world_with_latex = (fst (load_module world_with_latex), Inr (loaded True))
   \<and> deref (heap (fst (load_module world_with_latex))) (ns_base_params (loaded True)) = base_params
   \<and> deref (heap (fst (load_module world_with_latex))) (ns_latex_params (loaded True)) = latex_params"
proof -
  have run: "load_module world_with_latex = (fst (load_module world_with_latex), Inr (loaded True))"
    by (rule completed_run) (rule run_with_latex)
  from dicts_not_mutated [OF run] run show ?thesis by simp
qed

section \<open>The availability check\<close>




section \<open>Collisions in the merge\<close>

text \<open>
  C7, as the code has it: in the merge of the base dictionary with the typeset dictionary
  or with the two fallback entries the later entry wins where a key comes twice, for any
  two dictionaries in the place of \<^verbatim>\<open>base_params\<close> and \<^verbatim>\<open>latex_params\<close>.  In the module no
  key comes twice: \<open>base_params\<close> shares no key with \<open>latex_params\<close>, and it has neither
  \<^verbatim>\<open>font.family\<close> nor \<^verbatim>\<open>mathtext.fontset\<close>, so the fallback entries are added to the base
  entries and replace none of them.
\<close>

theorem later_key_wins:
  assumes "distinct (dict_keys d)" and "distinct (dict_keys e)"
  shows "dict_get (select_params True d e) k
           = (case dict_get e k of Some v \<Rightarrow> Some v | None \<Rightarrow> dict_get d k)
       \<and> dict_get (select_params False d e) k
           = (if k = ''mathtext.fontset'' then Some (PStr ''dejavuserif'')
              else if k = ''font.family'' then Some (PStr ''serif'')
              else dict_get d k)
       \<and> set (dict_keys base_params) \<inter> set (dict_keys latex_params) = {}
       \<and> set (dict_keys base_params) \<inter> {''font.family'', ''mathtext.fontset''} = {}"
proof -
  have d: "dict_unpack [] d = d"
    using dict_unpack_fresh [of "[]" d] assms(1) by (simp add: dict_keys_def)
  have "map_of (dict_unpack d e) = map_of d ++ map_of e"
    using dict_unpack_map_of assms(2) by (simp add: dict_keys_def)
  then have 1: "dict_get (select_params True d e) k
           = (case dict_get e k of Some v \<Rightarrow> Some v | None \<Rightarrow> dict_get d k)"
    by (simp add: select_params_def dict_display_def d dict_get_def map_add_def split: option.splits)
  have 2: "dict_get (select_params False d e) k
           = (if k = ''mathtext.fontset'' then Some (PStr ''dejavuserif'')
              else if k = ''font.family'' then Some (PStr ''serif'')
              else dict_get d k)"
    by (simp add: select_params_def dict_display_def d dict_get_def dict_set_map_of)
  have 3: "set (dict_keys base_params) \<inter> set (dict_keys latex_params) = {}"
    using base_latex_disjoint by (simp add: dict_keys_def)
  have 4: "set (dict_keys base_params) \<inter> {''font.family'', ''mathtext.fontset''} = {}"
    using base_fallback_disjoint by (simp add: dict_keys_def)
  from 1 2 3 4 show ?thesis by blast
qed

theorem later_key_wins_witness:
  "distinct (dict_keys [(''font.family'', PStr ''sans-serif''), (''font.size'', PInt 9)])
   \<and> distinct (dict_keys [(''font.family'', PStr ''serif'')])
   \<and> dict_get (select_params True
         [(''font.family'', PStr ''sans-serif''), (''font.size'', PInt 9)]
         [(''font.family'', PStr ''serif'')]) ''font.family'' = Some (PStr ''serif'')
   \<and> dict_get (select_params False
         [(''font.family'', PStr ''sans-serif''), (''font.size'', PInt 9)]
         [(''font.family'', PStr ''serif'')]) ''font.family'' = Some (PStr ''serif'')"
proof -
  have d: "distinct (dict_keys [(''font.family'', PStr ''sans-serif''), (''font.size'', PInt 9)])"
    by (simp add: dict_keys_def)
  have e: "distinct (dict_keys [(''font.family'', PStr ''serif'')])"
    by (simp add: dict_keys_def)
  from later_key_wins [OF d e, of "''font.family''"] d e show ?thesis
    by (simp add: dict_get_def)
qed

text \<open>
  C7 as stated names \<^verbatim>\<open>font.family\<close> and \<^verbatim>\<open>mathtext.fontset\<close> as keys that collide with
  base defaults.  \<open>base_params\<close> has no entry for either of them.
\<close>

theorem fallback_keys_collide_counterexample:
  "dict_get base_params ''font.family'' = None \<and> dict_get base_params ''mathtext.fontset'' = None"
  by (simp add: dict_get_def base_params_eq)

section \<open>Applying the configuration\<close>

text \<open>A key that is not among the entries keeps its value, also when the update raises.\<close>

lemma rcParams_update_frame:
  "rcParams_update val rc items = (rc', r) \<Longrightarrow> k \<notin> fst ` set items \<Longrightarrow> map_of rc' k = map_of rc k"
proof (induction val rc items rule: rcParams_update.induct)
  case (1 val rc)
  then show ?case by simp
next
  case (2 val rc k0 v items)
  show ?case
  proof (cases "val k0 v")
    case (Inl e)
    with 2 show ?thesis by simp
  next
    case (Inr v')
    with 2 have "map_of rc' k = map_of (dict_set rc k0 v') k" by simp
    also from 2(3) have "\<dots> = map_of rc k" by (simp add: dict_set_map_of)
    finally show ?thesis .
  qed
qed

text \<open>When the update completes, every entry has been validated and stored.\<close>

lemma rcParams_update_written:
  "rcParams_update val rc items = (rc', None) \<Longrightarrow> distinct (map fst items) \<Longrightarrow>
   (k, v) \<in> set items \<Longrightarrow> \<exists>v'. val k v = Inr v' \<and> map_of rc' k = Some v'"
proof (induction val rc items rule: rcParams_update.induct)
  case (1 val rc)
  then show ?case by simp
next
  case (2 val rc k0 v0 items)
  show ?case
  proof (cases "val k0 v0")
    case (Inl e)
    with 2(2) show ?thesis by simp
  next
    case (Inr v')
    with 2(2) have rest: "rcParams_update val (dict_set rc k0 v') items = (rc', None)" by simp
    show ?thesis
    proof (cases "(k, v) = (k0, v0)")
      case True
      from 2(3) have "k0 \<notin> fst ` set items" by simp
      from rcParams_update_frame [OF rest this]
      have "map_of rc' k0 = Some v'" by (simp add: dict_set_map_of)
      with True Inr show ?thesis by simp
    next
      case False
      with 2(4) have "(k, v) \<in> set items" by auto
      moreover from 2(3) have "distinct (map fst items)" by simp
      ultimately show ?thesis using 2(1) [OF Inr rest] by simp
    qed
  qed
qed

text \<open>
  C8: the apply step stores every key of the merged configuration in \<^verbatim>\<open>rcParams\<close>, with
  the value the library's validation gives for the merged value, whatever was stored
  under the key before; every key that the merged configuration does not have keeps the
  value it had before the module was loaded.
\<close>

theorem apply_writes_params:
  assumes "load_module w = (eff, Inr ns)"
  shows "(\<forall>k v. dict_get (deref (heap eff) (ns_params ns)) k = Some v \<longrightarrow>
            (\<exists>v'. rc_validate w k v = Inr v'
                 \<and> dict_get (deref (heap eff) rcParams_addr) k = Some v'))
       \<and> (\<forall>k. k \<notin> set (dict_keys (deref (heap eff) (ns_params ns))) \<longrightarrow>
            dict_get (deref (heap eff) rcParams_addr) k = dict_get (rc_initial w) k)"
proof -
  let ?p = "select_params (ns_LATEX_AVAILABLE ns) base_params latex_params"
  have p: "deref (heap eff) (ns_params ns) = ?p"
    by (rule load_module_completed(4) [OF assms])
  have upd: "rcParams_update (rc_validate w) (rc_initial w) ?p = (deref (heap eff) rcParams_addr, None)"
    by (rule load_module_completed(5) [OF assms])
  have "\<exists>v'. rc_validate w k v = Inr v' \<and> map_of (deref (heap eff) rcParams_addr) k = Some v'"
    if "map_of ?p k = Some v" for k v
    using rcParams_update_written [OF upd select_params_distinct map_of_SomeD [OF that]] .
  moreover have "map_of (deref (heap eff) rcParams_addr) k = map_of (rc_initial w) k"
    if "k \<notin> fst ` set ?p" for k
    using rcParams_update_frame [OF upd that] .
  ultimately show ?thesis
    by (simp add: p dict_get_def dict_keys_def)
qed

theorem apply_writes_params_witness:
  "load_module world_with_latex = (fst (load_module world_with_latex), Inr (loaded True))
   \<and> dict_get (rc_initial world_with_latex) ''figure.dpi'' = Some (PInt 72)
   \<and> dict_get (deref (heap (fst (load_module world_with_latex))) (ns_params (loaded True)))
        ''figure.dpi'' = Some (PInt 100)
   \<and> dict_get (deref (heap (fst (load_module world_with_latex))) rcParams_addr)
        ''figure.dpi'' = Some (PInt 100)
   \<and> ''lines.color'' \<notin>
        set (dict_keys (deref (heap (fst (load_module world_with_latex))) (ns_params (loaded True))))
   \<and> dict_get (deref (heap (fst (load_module world_with_latex))) rcParams_addr)
        ''lines.color'' = Some (PStr ''C0'')"
proof -
  have run: "load_module world_with_latex = (fst (load_module world_with_latex), Inr (loaded True))"
    by (rule completed_run) (rule run_with_latex)
  have p: "deref (heap (fst (load_module world_with_latex))) (ns_params (loaded True))
            = base_params @ latex_params"
    using load_module_completed(4) [OF run] by (simp add: loaded_def select_params_True)
  have dpi: "dict_get (deref (heap (fst (load_module world_with_latex))) (ns_params (loaded True)))
        ''figure.dpi'' = Some (PInt 100)"
    by (simp add: p dict_get_def base_params_eq)
  have color: "''lines.color'' \<notin>
        set (dict_keys (deref (heap (fst (load_module world_with_latex))) (ns_params (loaded True))))"
    by (simp add: p dict_keys_def base_params_eq latex_params_eq)
  have rc: "dict_get (rc_initial world_with_latex) ''figure.dpi'' = Some (PInt 72)"
       "dict_get (rc_initial world_with_latex) ''lines.color'' = Some (PStr ''C0'')"
       "rc_validate world_with_latex = accept_all"
    by (simp_all add: world_with_latex_def dict_get_def)
  from apply_writes_params [OF run] dpi color rc run show ?thesis
    by (auto simp: accept_all_def)
qed

section \<open>The fallback warning\<close>






end
